theory Spec2Isabelle
  imports Main "HOL-Library.AList"
begin

section \<open>Python values, exceptions and strings\<close>

text \<open>
  The instrumentation code handles arbitrary Python objects: call results, receiver
  attributes, keyword arguments. The constructors below cover the shapes the code
  distinguishes (\<open>None\<close>, lists, strings, integers) and an opaque instance of a named
  class, which is truthy and has no length.
\<close>

datatype pyval =
    PyNone
  | PyInt int
  | PyStr string
  | PyList "pyval list"
  | PyObj string

text \<open>
  An exception object: the name of its class, the names of the classes it inherits
  from, and the text \<open>str(e)\<close> gives. \<open>except C\<close> is an \<open>isinstance\<close> test; an exception
  object is truthy (\<open>BaseException\<close> defines neither \<open>__bool__\<close> nor \<open>__len__\<close>), so the
  source's \<open>if error_info:\<close> is the test that an exception was caught.
\<close>

record exn =
  exc_class :: string
  exc_bases :: "string list"
  exc_message :: string

definition isinstance_exc :: "exn \<Rightarrow> string \<Rightarrow> bool" where
  "isinstance_exc e c = (c = exc_class e \<or> c \<in> set (exc_bases e))"

text \<open>\<open>str.lower\<close> on ASCII text.\<close>

definition lower_char :: "char \<Rightarrow> char" where
  "lower_char c =
     (case map_of (zip ''ABCDEFGHIJKLMNOPQRSTUVWXYZ'' ''abcdefghijklmnopqrstuvwxyz'') c of
        Some d \<Rightarrow> d
      | None \<Rightarrow> c)"

definition lower :: "string \<Rightarrow> string" where
  "lower s = map lower_char s"

section \<open>base.py: the generic interception utility\<close>

text \<open>
  The object handed to \<open>wrap_method\<close> is a class of the target library (every call in
  the repository passes a class). It is seen through \<open>hasattr\<close>, \<open>getattr\<close> and
  \<open>setattr\<close>: \<open>obj_attrs\<close> is that attribute table, for the method names being
  patched. The three fields read by the key computation are kept apart from it:
  \<open>__module__\<close>, \<open>__name__\<close> when the object has one, and \<open>type(obj).__name__\<close>.
  Callables are values of an arbitrary type \<open>'c\<close>; equality on \<open>'c\<close> is object identity.
\<close>

record 'c scope =
  obj_module :: string
  obj_name :: "string option"
  obj_type_name :: string
  obj_attrs :: "string \<rightharpoonup> 'c"

definition patch_key :: "'c scope \<Rightarrow> string \<Rightarrow> string" where
  "patch_key obj method_name =
     obj_module obj @ ''.'' @
     (case obj_name obj of Some n \<Rightarrow> n | None \<Rightarrow> obj_type_name obj) @ ''.'' @
     method_name"

definition wrap_method ::
  "'c scope \<Rightarrow> string \<Rightarrow> ('c \<Rightarrow> 'c) \<Rightarrow> (string \<rightharpoonup> 'c) \<Rightarrow> bool \<times> 'c scope \<times> (string \<rightharpoonup> 'c)" where
  "wrap_method obj method_name wrapper_func original_store =
     (case obj_attrs obj method_name of
        None \<Rightarrow> (False, obj, original_store)
      | Some original \<Rightarrow>
          (let key = patch_key obj method_name;
               store' = original_store(key \<mapsto> original);
               wrapped = wrapper_func original
           in (True, obj\<lparr>obj_attrs := (obj_attrs obj)(method_name \<mapsto> wrapped)\<rparr>, store')))"

definition unwrap_method ::
  "'c scope \<Rightarrow> string \<Rightarrow> (string \<rightharpoonup> 'c) \<Rightarrow> bool \<times> 'c scope \<times> (string \<rightharpoonup> 'c)" where
  "unwrap_method obj method_name original_store =
     (let key = patch_key obj method_name
      in case original_store key of
           Some original \<Rightarrow>
             (True, obj\<lparr>obj_attrs := (obj_attrs obj)(method_name \<mapsto> original)\<rparr>,
              original_store(key := None))
         | None \<Rightarrow> (False, obj, original_store))"

text \<open>
  A concrete type of callables for the examples: a function of the library, named, or
  the closure a wrapper factory builds around another callable.
\<close>

datatype callable = LibFn string | Wrapper callable

definition TestClass :: "callable scope" where
  "TestClass = \<lparr>obj_module = ''tests'', obj_name = Some ''TestClass'', obj_type_name = ''type'',
                obj_attrs = [''method'' \<mapsto> LibFn ''method'']\<rparr>"

definition wrapped_once :: "bool \<times> callable scope \<times> (string \<rightharpoonup> callable)" where
  "wrapped_once = wrap_method TestClass ''method'' Wrapper Map.empty"

definition wrapped_twice :: "bool \<times> callable scope \<times> (string \<rightharpoonup> callable)" where
  "wrapped_twice =
     wrap_method (fst (snd wrapped_once)) ''method'' Wrapper (snd (snd wrapped_once))"

section \<open>base.py: the capability probe\<close>

text \<open>
  \<open>importlib.import_module\<close> is the environment: for a module name it returns the
  module object or raises. \<open>safe_import\<close> turns an \<open>ImportError\<close> (or a subclass, such as
  \<open>ModuleNotFoundError\<close>) into \<open>None\<close>; its handler names no other class.
\<close>

type_synonym importer = "string \<Rightarrow> exn + pyval"

definition safe_import :: "importer \<Rightarrow> string \<Rightarrow> exn + pyval" where
  "safe_import import_module module_name =
     (case import_module module_name of
        Inr m \<Rightarrow> Inr m
      | Inl e \<Rightarrow> if isinstance_exc e ''ImportError'' then Inr PyNone else Inl e)"

datatype framework = OpenAI | Anthropic | LangChain | LlamaIndex | Google

text \<open>
  \<open>_check_installed\<close> of the five instrumentor classes. \<open>a is not None or b is not None\<close>
  evaluates \<open>b\<close> only when the first import gave \<open>None\<close>.
\<close>

definition is_not_None_or ::
  "importer \<Rightarrow> string \<Rightarrow> string \<Rightarrow> exn + bool" where
  "is_not_None_or import_module first second =
     (case safe_import import_module first of
        Inl e \<Rightarrow> Inl e
      | Inr m \<Rightarrow>
          if m \<noteq> PyNone then Inr True
          else (case safe_import import_module second of
                  Inl e \<Rightarrow> Inl e
                | Inr m' \<Rightarrow> Inr (m' \<noteq> PyNone)))"

definition is_not_None :: "importer \<Rightarrow> string \<Rightarrow> exn + bool" where
  "is_not_None import_module module_name =
     (case safe_import import_module module_name of
        Inl e \<Rightarrow> Inl e
      | Inr m \<Rightarrow> Inr (m \<noteq> PyNone))"

fun check_installed :: "importer \<Rightarrow> framework \<Rightarrow> exn + bool" where
  "check_installed import_module OpenAI = is_not_None import_module ''openai''"
| "check_installed import_module Anthropic = is_not_None import_module ''anthropic''"
| "check_installed import_module LangChain =
     is_not_None_or import_module ''langchain_core'' ''langchain''"
| "check_installed import_module LlamaIndex =
     is_not_None_or import_module ''llama_index'' ''llama_index.core''"
| "check_installed import_module Google = is_not_None import_module ''google.generativeai''"


section \<open>base.py: the instrumentor lifecycle\<close>

text \<open>
  An instance of a subclass of \<open>BaseInstrumentor\<close>: the name of its class, its \<open>name\<close>
  property, the flag \<open>_is_instrumented\<close>, and what its three abstract methods do when
  called: \<open>_check_installed\<close> returns a boolean or raises, \<open>_instrument\<close> and
  \<open>_uninstrument\<close> complete (\<open>None\<close>) or raise.

  Here and in the wrappers an \<open>exn\<close> raised by a callee stands for an instance of
  \<open>Exception\<close>, which every \<open>except Exception\<close> handler catches; a handler that names a
  narrower class (\<open>ImportError\<close>, \<open>RuntimeError\<close>) is the \<open>isinstance\<close> test. Interpreter
  signals outside \<open>Exception\<close> (\<open>KeyboardInterrupt\<close>, \<open>SystemExit\<close>) are not values of the
  model.
\<close>

record instrumentor =
  inst_class :: string
  inst_name :: string
  is_instrumented :: bool
  check_installed_impl :: "exn + bool"
  instrument_impl :: "exn option"
  uninstrument_impl :: "exn option"

text \<open>
  \<open>BaseInstrumentor.instrument\<close> and \<open>BaseInstrumentor.uninstrument\<close>. The probe is
  called before the \<open>try\<close> block, so what it raises leaves \<open>instrument\<close>; the patching
  method is called inside it. The result is the returned boolean and the instance
  after the call.
\<close>

definition instrument :: "instrumentor \<Rightarrow> exn + (bool \<times> instrumentor)" where
  "instrument self =
     (if is_instrumented self then Inr (True, self)
      else case check_installed_impl self of
             Inl e \<Rightarrow> Inl e
           | Inr installed \<Rightarrow>
               if \<not> installed then Inr (False, self)
               else (case instrument_impl self of
                       None \<Rightarrow> Inr (True, self\<lparr>is_instrumented := True\<rparr>)
                     | Some e \<Rightarrow> Inr (False, self)))"

definition uninstrument :: "instrumentor \<Rightarrow> bool \<times> instrumentor" where
  "uninstrument self =
     (if \<not> is_instrumented self then (True, self)
      else case uninstrument_impl self of
             None \<Rightarrow> (True, self\<lparr>is_instrumented := False\<rparr>)
           | Some e \<Rightarrow> (False, self))"

text \<open>
  A fresh instance of one of the five classes of the repository: the class attribute
  \<open>_is_instrumented\<close> is \<open>False\<close>, the probe is the class's \<open>_check_installed\<close> over the
  importer, and the two patching methods depend on the target library, so what they
  do is given.
\<close>

fun class_name :: "framework \<Rightarrow> string" where
  "class_name OpenAI = ''OpenAIInstrumentor''"
| "class_name Anthropic = ''AnthropicInstrumentor''"
| "class_name LangChain = ''LangChainInstrumentor''"
| "class_name LlamaIndex = ''LlamaIndexInstrumentor''"
| "class_name Google = ''GoogleAIInstrumentor''"

fun framework_name :: "framework \<Rightarrow> string" where
  "framework_name OpenAI = ''OpenAI''"
| "framework_name Anthropic = ''Anthropic''"
| "framework_name LangChain = ''LangChain''"
| "framework_name LlamaIndex = ''LlamaIndex''"
| "framework_name Google = ''Google''"

definition new_instrumentor ::
  "importer \<Rightarrow> framework \<Rightarrow> exn option \<Rightarrow> exn option \<Rightarrow> instrumentor" where
  "new_instrumentor import_module fw does_instrument does_uninstrument =
     \<lparr>inst_class = class_name fw, inst_name = framework_name fw, is_instrumented = False,
      check_installed_impl = check_installed import_module fw,
      instrument_impl = does_instrument, uninstrument_impl = does_uninstrument\<rparr>"

text \<open>Exceptions and importers for the examples.\<close>

definition ModuleNotFoundError :: "string \<Rightarrow> exn" where
  "ModuleNotFoundError msg =
     \<lparr>exc_class = ''ModuleNotFoundError'', exc_bases = [''ImportError'', ''Exception''],
      exc_message = msg\<rparr>"


definition AttributeError :: "string \<Rightarrow> exn" where
  "AttributeError msg =
     \<lparr>exc_class = ''AttributeError'', exc_bases = [''Exception''], exc_message = msg\<rparr>"

definition nothing_installed :: importer where
  "nothing_installed module_name = Inl (ModuleNotFoundError module_name)"


definition only_openai :: importer where
  "only_openai module_name =
     (if module_name = ''openai'' then Inr (PyObj ''module'')
      else Inl (ModuleNotFoundError module_name))"

section \<open>auto.py: the registry and the lifecycle controller\<close>

text \<open>
  The module globals: \<open>_INSTRUMENTORS\<close>, a dictionary from registry key to instrumentor
  class, kept as an association list in insertion order, and \<open>_active_instrumentors\<close>.
  A class is represented by the instance its constructor returns. Importing an
  instrumentor module gives the class or raises; \<open>_register_instrumentors\<close> skips a key
  whose import raises \<open>ImportError\<close>.
\<close>

type_synonym registry = "(string \<times> instrumentor) list"

record auto_state =
  INSTRUMENTORS :: registry
  active_instrumentors :: "instrumentor list"

definition register_one ::
  "(string \<Rightarrow> exn + instrumentor) \<Rightarrow> string \<Rightarrow> registry \<Rightarrow> exn + registry" where
  "register_one import_class key reg =
     (case import_class key of
        Inr cls \<Rightarrow> Inr (AList.update key cls reg)
      | Inl e \<Rightarrow> if isinstance_exc e ''ImportError'' then Inr reg else Inl e)"

fun register_each ::
  "(string \<Rightarrow> exn + instrumentor) \<Rightarrow> string list \<Rightarrow> registry \<Rightarrow> exn + registry" where
  "register_each import_class [] reg = Inr reg"
| "register_each import_class (key # keys) reg =
     (case register_one import_class key reg of
        Inl e \<Rightarrow> Inl e
      | Inr reg' \<Rightarrow> register_each import_class keys reg')"

definition register_instrumentors ::
  "(string \<Rightarrow> exn + instrumentor) \<Rightarrow> registry \<Rightarrow> exn + registry" where
  "register_instrumentors import_class reg =
     (if reg \<noteq> [] then Inr reg
      else register_each import_class
             [''openai'', ''anthropic'', ''langchain'', ''llamaindex'', ''google''] reg)"

text \<open>
  \<open>auto_instrument\<close>: the target set, the test for an active instance of the same
  class that is instrumented, and the loop over the items of the registry, which
  fills \<open>results\<close> and appends to the active list.
\<close>

definition frameworks_to_instrument ::
  "registry \<Rightarrow> string list option \<Rightarrow> string list option \<Rightarrow> string set" where
  "frameworks_to_instrument reg frameworks exclude =
     (let selected = (case frameworks of
                        None \<Rightarrow> set (map fst reg)
                      | Some fs \<Rightarrow> set (map lower fs))
      in case exclude of
           None \<Rightarrow> selected
         | Some ex \<Rightarrow> if ex \<noteq> [] then selected - set (map lower ex) else selected)"

definition already_instrumented :: "instrumentor \<Rightarrow> instrumentor list \<Rightarrow> bool" where
  "already_instrumented instrumentor_class active =
     (case find (\<lambda>i. inst_class i = inst_class instrumentor_class) active of
        None \<Rightarrow> False
      | Some existing \<Rightarrow> is_instrumented existing)"

text \<open>
  \<open>instrumentor_class()\<close>: a new instance reads the class attribute
  \<open>_is_instrumented = False\<close>.
\<close>

definition new_instance :: "instrumentor \<Rightarrow> instrumentor" where
  "new_instance instrumentor_class = instrumentor_class\<lparr>is_instrumented := False\<rparr>"

fun instrument_each ::
  "string set \<Rightarrow> registry \<Rightarrow> (string \<rightharpoonup> bool) \<Rightarrow> instrumentor list \<Rightarrow>
   exn + ((string \<rightharpoonup> bool) \<times> instrumentor list)" where
  "instrument_each target [] results active = Inr (results, active)"
| "instrument_each target ((name, instrumentor_class) # rest) results active =
     (if name \<notin> target then instrument_each target rest results active
      else if already_instrumented instrumentor_class active
      then instrument_each target rest (results(name \<mapsto> True)) active
      else (case instrument (new_instance instrumentor_class) of
              Inl e \<Rightarrow> Inl e
            | Inr (success, instrumentor) \<Rightarrow>
                instrument_each target rest (results(name \<mapsto> success))
                  (if success then active @ [instrumentor] else active)))"

definition auto_instrument ::
  "(string \<Rightarrow> exn + instrumentor) \<Rightarrow> auto_state \<Rightarrow> string list option \<Rightarrow> string list option \<Rightarrow>
   exn + ((string \<rightharpoonup> bool) \<times> auto_state)" where
  "auto_instrument import_class st frameworks exclude =
     (case register_instrumentors import_class (INSTRUMENTORS st) of
        Inl e \<Rightarrow> Inl e
      | Inr reg \<Rightarrow>
          (case instrument_each (frameworks_to_instrument reg frameworks exclude) reg
                  Map.empty (active_instrumentors st) of
             Inl e \<Rightarrow> Inl e
           | Inr (results, active) \<Rightarrow>
               Inr (results, \<lparr>INSTRUMENTORS = reg, active_instrumentors = active\<rparr>)))"

text \<open>
  \<open>uninstrument(frameworks)\<close> of auto.py, named \<open>uninstrument_all\<close> here since the method
  of the base class has the name already. \<open>selected\<close> is the negation of the loop's
  \<open>continue\<close> test: \<open>frameworks\<close> is \<open>None\<close>, or the lowercased name is in the lowercased
  list.
\<close>

definition selected :: "string list option \<Rightarrow> instrumentor \<Rightarrow> bool" where
  "selected frameworks i =
     (case frameworks of
        None \<Rightarrow> True
      | Some fs \<Rightarrow> lower (inst_name i) \<in> set (map lower fs))"

fun uninstrument_each ::
  "string list option \<Rightarrow> instrumentor list \<Rightarrow> (string \<rightharpoonup> bool) \<Rightarrow> instrumentor list \<Rightarrow>
   (string \<rightharpoonup> bool) \<times> instrumentor list" where
  "uninstrument_each frameworks [] results remaining = (results, remaining)"
| "uninstrument_each frameworks (instrumentor # rest) results remaining =
     (let name = lower (inst_name instrumentor)
      in if \<not> selected frameworks instrumentor
         then uninstrument_each frameworks rest results (remaining @ [instrumentor])
         else (case uninstrument instrumentor of
                 (success, instrumentor') \<Rightarrow>
                   uninstrument_each frameworks rest (results(name \<mapsto> success))
                     (if \<not> success then remaining @ [instrumentor'] else remaining)))"

definition uninstrument_all ::
  "auto_state \<Rightarrow> string list option \<Rightarrow> (string \<rightharpoonup> bool) \<times> auto_state" where
  "uninstrument_all st frameworks =
     (case uninstrument_each frameworks (active_instrumentors st) Map.empty [] of
        (results, remaining) \<Rightarrow> (results, st\<lparr>active_instrumentors := remaining\<rparr>))"

text \<open>Reading a result of \<open>auto_instrument\<close> in the examples.\<close>

definition returned :: "exn + 'a \<Rightarrow> bool" where
  "returned r = (case r of Inr x \<Rightarrow> True | Inl e \<Rightarrow> False)"

definition result_for ::
  "exn + ((string \<rightharpoonup> bool) \<times> auto_state) \<Rightarrow> string \<Rightarrow> bool option" where
  "result_for r name = (case r of Inr (results, st) \<Rightarrow> results name | Inl e \<Rightarrow> None)"

definition repository_classes ::
  "importer \<Rightarrow> string \<Rightarrow> exn + instrumentor" where
  "repository_classes import_module key =
     (if key = ''openai'' then Inr (new_instrumentor import_module OpenAI None None)
      else if key = ''anthropic'' then Inr (new_instrumentor import_module Anthropic None None)
      else if key = ''langchain'' then Inr (new_instrumentor import_module LangChain None None)
      else if key = ''llamaindex'' then Inr (new_instrumentor import_module LlamaIndex None None)
      else if key = ''google'' then Inr (new_instrumentor import_module Google None None)
      else Inl (ModuleNotFoundError key))"

definition initial_state :: auto_state where
  "initial_state = \<lparr>INSTRUMENTORS = [], active_instrumentors = []\<rparr>"

definition fresh_openai :: instrumentor where
  "fresh_openai = new_instrumentor only_openai OpenAI None None"

definition absent_openai :: instrumentor where
  "absent_openai = new_instrumentor nothing_installed OpenAI None None"

definition failing_openai :: instrumentor where
  "failing_openai =
     new_instrumentor only_openai OpenAI (Some (AttributeError ''no attribute resources'')) None"

definition installed_openai :: instrumentor where
  "installed_openai = fresh_openai\<lparr>is_instrumented := True\<rparr>"

definition stuck_anthropic :: instrumentor where
  "stuck_anthropic =
     (new_instrumentor only_openai Anthropic None (Some (AttributeError ''no attribute messages'')))
       \<lparr>is_instrumented := True\<rparr>"

definition installed_google :: instrumentor where
  "installed_google = (new_instrumentor only_openai Google None None)\<lparr>is_instrumented := True\<rparr>"

definition crewai_run :: "exn + ((string \<rightharpoonup> bool) \<times> auto_state)" where
  "crewai_run = auto_instrument (repository_classes only_openai) initial_state (Some [''crewai'']) None"

definition exclude_run :: "exn + ((string \<rightharpoonup> bool) \<times> auto_state)" where
  "exclude_run =
     auto_instrument (repository_classes only_openai) initial_state None
       (Some [''Anthropic'', ''google''])"

definition active_state :: auto_state where
  "active_state =
     \<lparr>INSTRUMENTORS = [],
      active_instrumentors = [installed_openai, stuck_anthropic, installed_google]\<rparr>"

section \<open>The call wrappers\<close>

text \<open>
  Modelled from the spec: the telemetry sink (\<open>genai_telemetry.core.telemetry\<close>, not
  among the sources) offers \<open>send_span(fields)\<close> and \<open>new_trace()\<close>, which return nothing
  and do not raise. A wrapper's calls on the sink are recorded as the list of events
  it produces, in order; a span is the dictionary of keyword arguments handed to
  \<open>send_span\<close>.
\<close>

type_synonym span = "string \<rightharpoonup> pyval"

datatype event = NewTrace | SendSpan span

fun sent_spans :: "event list \<Rightarrow> span list" where
  "sent_spans [] = []"
| "sent_spans (NewTrace # evs) = sent_spans evs"
| "sent_spans (SendSpan sp # evs) = sp # sent_spans evs"

definition span_fields :: "string \<Rightarrow> event list \<Rightarrow> pyval option list" where
  "span_fields key evs = map (\<lambda>sp. sp key) (sent_spans evs)"

text \<open>
  \<open>_get_telemetry\<close>, the same in every instrumentor class: \<open>get_telemetry()\<close> of the
  core package returns the telemetry object or raises; a \<open>RuntimeError\<close> becomes
  \<open>None\<close>. What \<open>get_telemetry()\<close> does at the moment of the call is the argument.
\<close>

definition instrumentor_get_telemetry :: "exn + pyval \<Rightarrow> exn + pyval" where
  "instrumentor_get_telemetry get_telemetry =
     (case get_telemetry of
        Inr telemetry \<Rightarrow> Inr telemetry
      | Inl e \<Rightarrow> if isinstance_exc e ''RuntimeError'' then Inr PyNone else Inl e)"

text \<open>Truthiness, \<open>type(x).__name__\<close>, \<open>len\<close>, \<open>isinstance(x, list)\<close> and \<open>sub in s\<close>.\<close>

fun py_truthy :: "pyval \<Rightarrow> bool" where
  "py_truthy PyNone = False"
| "py_truthy (PyInt n) = (n \<noteq> 0)"
| "py_truthy (PyStr s) = (s \<noteq> [])"
| "py_truthy (PyList xs) = (xs \<noteq> [])"
| "py_truthy (PyObj c) = True"

fun type_name :: "pyval \<Rightarrow> string" where
  "type_name PyNone = ''NoneType''"
| "type_name (PyInt n) = ''int''"
| "type_name (PyStr s) = ''str''"
| "type_name (PyList xs) = ''list''"
| "type_name (PyObj c) = c"

definition TypeError_no_len :: "pyval \<Rightarrow> exn" where
  "TypeError_no_len v =
     \<lparr>exc_class = ''TypeError'', exc_bases = [''Exception''],
      exc_message = ''object of type '' @ type_name v @ '' has no len()''\<rparr>"

fun py_len :: "pyval \<Rightarrow> exn + int" where
  "py_len (PyStr s) = Inr (int (length s))"
| "py_len (PyList xs) = Inr (int (length xs))"
| "py_len v = Inl (TypeError_no_len v)"

fun isinstance_list :: "pyval \<Rightarrow> bool" where
  "isinstance_list (PyList xs) = True"
| "isinstance_list v = False"

fun py_in :: "string \<Rightarrow> string \<Rightarrow> bool" where
  "py_in sub [] = (sub = [])"
| "py_in sub (c # cs) = (take (length sub) (c # cs) = sub \<or> py_in sub cs)"

text \<open>
  The receiver of a bound call (\<open>self_instance\<close>): the name of its class and its
  attributes. An original method takes the positional and the keyword arguments and
  returns a value or raises; the wrappers hand their arguments on unchanged.
\<close>

record receiver =
  recv_class :: string
  recv_attrs :: "string \<rightharpoonup> pyval"

type_synonym original = "pyval list \<Rightarrow> (string \<rightharpoonup> pyval) \<Rightarrow> exn + pyval"

type_synonym bound_original = "receiver \<Rightarrow> pyval list \<Rightarrow> (string \<rightharpoonup> pyval) \<Rightarrow> exn + pyval"

text \<open>
  The wrappers share one shape. The clock readings give \<open>duration_ms\<close>, an argument
  here. \<open>extract_tokens_from_response\<close> (\<open>genai_telemetry.core.utils\<close>, not among the
  sources) is an argument too: a function from a response to a pair of integers.
  \<open>response\<close> and \<open>error_info\<close> are the two local variables the \<open>finally\<close> block reads:
  \<open>response\<close> stays \<open>None\<close> when the call raised, \<open>error_info\<close> stays \<open>None\<close> when it
  returned. The asynchronous wrapper of each factory has the same statements with
  the original awaited, so one definition stands for both.

  openai_inst.py, \<open>_create_chat_wrapper\<close>:
\<close>

definition openai_chat_wrapper ::
  "exn + pyval \<Rightarrow> (pyval \<Rightarrow> int \<times> int) \<Rightarrow> original \<Rightarrow> pyval \<Rightarrow>
   pyval list \<Rightarrow> (string \<rightharpoonup> pyval) \<Rightarrow> (exn + pyval) \<times> event list" where
  "openai_chat_wrapper get_telemetry extract_tokens_from_response original_method duration_ms
       args kwargs =
     (case instrumentor_get_telemetry get_telemetry of
        Inl e \<Rightarrow> (Inl e, [])
      | Inr telemetry \<Rightarrow>
          if telemetry = PyNone then (original_method args kwargs, [])
          else
            (let model = (case kwargs ''model'' of Some m \<Rightarrow> m | None \<Rightarrow> PyStr ''unknown'');
                 outcome = original_method args kwargs;
                 response = (case outcome of Inr r \<Rightarrow> r | Inl e \<Rightarrow> PyNone);
                 error_info = (case outcome of Inr r \<Rightarrow> None | Inl e \<Rightarrow> Some e);
                 tokens = (if response \<noteq> PyNone then extract_tokens_from_response response
                           else (0, 0));
                 input_tokens = fst tokens;
                 output_tokens = snd tokens;
                 span_kwargs =
                   [''span_type'' \<mapsto> PyStr ''LLM'',
                    ''name'' \<mapsto> PyStr ''openai.chat.completions.create'',
                    ''model_name'' \<mapsto> model,
                    ''model_provider'' \<mapsto> PyStr ''openai'',
                    ''duration_ms'' \<mapsto> duration_ms,
                    ''input_tokens'' \<mapsto> PyInt input_tokens,
                    ''output_tokens'' \<mapsto> PyInt output_tokens,
                    ''total_tokens'' \<mapsto> PyInt (input_tokens + output_tokens)];
                 span_kwargs' =
                   (case error_info of
                      None \<Rightarrow> span_kwargs
                    | Some e \<Rightarrow>
                        span_kwargs(''status'' \<mapsto> PyStr ''ERROR'',
                                    ''is_error'' \<mapsto> PyInt 1,
                                    ''error_message'' \<mapsto> PyStr (exc_message e),
                                    ''error_type'' \<mapsto> PyStr (exc_class e)))
             in (outcome, [SendSpan span_kwargs'])))"

text \<open>anthropic_inst.py, \<open>_create_messages_wrapper\<close>:\<close>

definition anthropic_messages_wrapper ::
  "exn + pyval \<Rightarrow> (pyval \<Rightarrow> int \<times> int) \<Rightarrow> original \<Rightarrow> pyval \<Rightarrow>
   pyval list \<Rightarrow> (string \<rightharpoonup> pyval) \<Rightarrow> (exn + pyval) \<times> event list" where
  "anthropic_messages_wrapper get_telemetry extract_tokens_from_response original_method
       duration_ms args kwargs =
     (case instrumentor_get_telemetry get_telemetry of
        Inl e \<Rightarrow> (Inl e, [])
      | Inr telemetry \<Rightarrow>
          if telemetry = PyNone then (original_method args kwargs, [])
          else
            (let model = (case kwargs ''model'' of Some m \<Rightarrow> m | None \<Rightarrow> PyStr ''unknown'');
                 outcome = original_method args kwargs;
                 response = (case outcome of Inr r \<Rightarrow> r | Inl e \<Rightarrow> PyNone);
                 error_info = (case outcome of Inr r \<Rightarrow> None | Inl e \<Rightarrow> Some e);
                 tokens = (if response \<noteq> PyNone then extract_tokens_from_response response
                           else (0, 0));
                 input_tokens = fst tokens;
                 output_tokens = snd tokens;
                 span_kwargs =
                   [''span_type'' \<mapsto> PyStr ''LLM'',
                    ''name'' \<mapsto> PyStr ''anthropic.messages.create'',
                    ''model_name'' \<mapsto> model,
                    ''model_provider'' \<mapsto> PyStr ''anthropic'',
                    ''duration_ms'' \<mapsto> duration_ms,
                    ''input_tokens'' \<mapsto> PyInt input_tokens,
                    ''output_tokens'' \<mapsto> PyInt output_tokens,
                    ''total_tokens'' \<mapsto> PyInt (input_tokens + output_tokens)];
                 span_kwargs' =
                   (case error_info of
                      None \<Rightarrow> span_kwargs
                    | Some e \<Rightarrow>
                        span_kwargs(''status'' \<mapsto> PyStr ''ERROR'',
                                    ''is_error'' \<mapsto> PyInt 1,
                                    ''error_message'' \<mapsto> PyStr (exc_message e),
                                    ''error_type'' \<mapsto> PyStr (exc_class e)))
             in (outcome, [SendSpan span_kwargs'])))"

text \<open>
  langchain_inst.py: \<open>_extract_model_info\<close> (the builtin \<open>str\<close> is the argument
  \<open>py_str\<close>), then the wrappers for LLM \<open>invoke\<close>, chain \<open>invoke\<close> and retriever \<open>invoke\<close>.
  An exception raised inside the \<open>finally\<close> block replaces the outcome of the call,
  and \<open>send_span\<close> is not reached.
\<close>

fun first_truthy_attr :: "receiver \<Rightarrow> string list \<Rightarrow> pyval option" where
  "first_truthy_attr instance [] = None"
| "first_truthy_attr instance (attr # attrs) =
     (case recv_attrs instance attr of
        None \<Rightarrow> first_truthy_attr instance attrs
      | Some val \<Rightarrow> if py_truthy val then Some val else first_truthy_attr instance attrs)"

definition extract_model_info :: "(pyval \<Rightarrow> string) \<Rightarrow> receiver \<Rightarrow> string \<times> string" where
  "extract_model_info py_str instance =
     (let model_name =
            (case first_truthy_attr instance [''model_name'', ''model'', ''model_id'', ''repo_id''] of
               Some val \<Rightarrow> py_str val
             | None \<Rightarrow> ''unknown'');
          cls = lower (recv_class instance);
          model_provider =
            (if py_in ''openai'' cls \<or> py_in ''gpt'' cls then ''openai''
             else if py_in ''anthropic'' cls \<or> py_in ''claude'' cls then ''anthropic''
             else if py_in ''cohere'' cls then ''cohere''
             else if py_in ''huggingface'' cls \<or> py_in ''hf'' cls then ''huggingface''
             else if py_in ''google'' cls \<or> py_in ''gemini'' cls \<or> py_in ''palm'' cls
             then ''google''
             else if py_in ''bedrock'' cls then ''aws_bedrock''
             else if py_in ''ollama'' cls then ''ollama''
             else if py_in ''mistral'' cls then ''mistral''
             else ''langchain'')
      in (model_name, model_provider))"

definition langchain_llm_invoke_wrapper ::
  "exn + pyval \<Rightarrow> (pyval \<Rightarrow> int \<times> int) \<Rightarrow> (pyval \<Rightarrow> string) \<Rightarrow> bound_original \<Rightarrow> pyval \<Rightarrow>
   receiver \<Rightarrow> pyval list \<Rightarrow> (string \<rightharpoonup> pyval) \<Rightarrow> (exn + pyval) \<times> event list" where
  "langchain_llm_invoke_wrapper get_telemetry extract_tokens_from_response py_str
       original_method duration_ms self_instance args kwargs =
     (case instrumentor_get_telemetry get_telemetry of
        Inl e \<Rightarrow> (Inl e, [])
      | Inr telemetry \<Rightarrow>
          if telemetry = PyNone then (original_method self_instance args kwargs, [])
          else
            (let model_info = extract_model_info py_str self_instance;
                 outcome = original_method self_instance args kwargs;
                 response = (case outcome of Inr r \<Rightarrow> r | Inl e \<Rightarrow> PyNone);
                 error_info = (case outcome of Inr r \<Rightarrow> None | Inl e \<Rightarrow> Some e);
                 tokens = (if response \<noteq> PyNone then extract_tokens_from_response response
                           else (0, 0));
                 input_tokens = fst tokens;
                 output_tokens = snd tokens;
                 span_kwargs =
                   [''span_type'' \<mapsto> PyStr ''LLM'',
                    ''name'' \<mapsto> PyStr (''langchain.'' @ recv_class self_instance @ ''.invoke''),
                    ''model_name'' \<mapsto> PyStr (fst model_info),
                    ''model_provider'' \<mapsto> PyStr (snd model_info),
                    ''duration_ms'' \<mapsto> duration_ms,
                    ''input_tokens'' \<mapsto> PyInt input_tokens,
                    ''output_tokens'' \<mapsto> PyInt output_tokens,
                    ''total_tokens'' \<mapsto> PyInt (input_tokens + output_tokens)];
                 span_kwargs' =
                   (case error_info of
                      None \<Rightarrow> span_kwargs
                    | Some e \<Rightarrow>
                        span_kwargs(''status'' \<mapsto> PyStr ''ERROR'',
                                    ''is_error'' \<mapsto> PyInt 1,
                                    ''error_message'' \<mapsto> PyStr (exc_message e),
                                    ''error_type'' \<mapsto> PyStr (exc_class e)))
             in (outcome, [SendSpan span_kwargs'])))"

definition langchain_chain_invoke_wrapper ::
  "exn + pyval \<Rightarrow> (pyval \<Rightarrow> string) \<Rightarrow> bound_original \<Rightarrow> pyval \<Rightarrow>
   receiver \<Rightarrow> pyval list \<Rightarrow> (string \<rightharpoonup> pyval) \<Rightarrow> (exn + pyval) \<times> event list" where
  "langchain_chain_invoke_wrapper get_telemetry py_str original_method duration_ms
       self_instance args kwargs =
     (case instrumentor_get_telemetry get_telemetry of
        Inl e \<Rightarrow> (Inl e, [])
      | Inr telemetry \<Rightarrow>
          if telemetry = PyNone then (original_method self_instance args kwargs, [])
          else
            (let chain_name = (case recv_attrs self_instance ''name'' of
                                 Some n \<Rightarrow> py_str n
                               | None \<Rightarrow> recv_class self_instance);
                 outcome = original_method self_instance args kwargs;
                 error_info = (case outcome of Inr r \<Rightarrow> None | Inl e \<Rightarrow> Some e);
                 span_kwargs =
                   [''span_type'' \<mapsto> PyStr ''CHAIN'',
                    ''name'' \<mapsto> PyStr (''langchain.'' @ chain_name @ ''.invoke''),
                    ''duration_ms'' \<mapsto> duration_ms];
                 span_kwargs' =
                   (case error_info of
                      None \<Rightarrow> span_kwargs
                    | Some e \<Rightarrow>
                        span_kwargs(''status'' \<mapsto> PyStr ''ERROR'',
                                    ''is_error'' \<mapsto> PyInt 1,
                                    ''error_message'' \<mapsto> PyStr (exc_message e),
                                    ''error_type'' \<mapsto> PyStr (exc_class e)))
             in (outcome, [NewTrace, SendSpan span_kwargs'])))"

definition langchain_retriever_invoke_wrapper ::
  "exn + pyval \<Rightarrow> bound_original \<Rightarrow> pyval \<Rightarrow>
   receiver \<Rightarrow> pyval list \<Rightarrow> (string \<rightharpoonup> pyval) \<Rightarrow> (exn + pyval) \<times> event list" where
  "langchain_retriever_invoke_wrapper get_telemetry original_method duration_ms
       self_instance args kwargs =
     (case instrumentor_get_telemetry get_telemetry of
        Inl e \<Rightarrow> (Inl e, [])
      | Inr telemetry \<Rightarrow>
          if telemetry = PyNone then (original_method self_instance args kwargs, [])
          else
            (let retriever_name = recv_class self_instance;
                 outcome = original_method self_instance args kwargs;
                 result = (case outcome of Inr r \<Rightarrow> r | Inl e \<Rightarrow> PyNone);
                 error_info = (case outcome of Inr r \<Rightarrow> None | Inl e \<Rightarrow> Some e)
             in case (if py_truthy result \<and> isinstance_list result then py_len result
                      else Inr 0) of
                  Inl len_error \<Rightarrow> (Inl len_error, [])
                | Inr docs_count \<Rightarrow>
                    (let vector_store =
                           (case recv_attrs self_instance ''vectorstore'' of
                              Some vs \<Rightarrow> type_name vs
                            | None \<Rightarrow>
                                (case recv_attrs self_instance ''vector_store'' of
                                   Some vs \<Rightarrow> type_name vs
                                 | None \<Rightarrow> ''unknown''));
                         span_kwargs =
                           [''span_type'' \<mapsto> PyStr ''RETRIEVER'',
                            ''name'' \<mapsto> PyStr (''langchain.'' @ retriever_name @ ''.invoke''),
                            ''vector_store'' \<mapsto> PyStr vector_store,
                            ''documents_retrieved'' \<mapsto> PyInt docs_count,
                            ''duration_ms'' \<mapsto> duration_ms];
                         span_kwargs' =
                           (case error_info of
                              None \<Rightarrow> span_kwargs
                            | Some e \<Rightarrow>
                                span_kwargs(''status'' \<mapsto> PyStr ''ERROR'',
                                            ''is_error'' \<mapsto> PyInt 1,
                                            ''error_message'' \<mapsto> PyStr (exc_message e)))
                     in (outcome, [SendSpan span_kwargs']))))"

text \<open>llamaindex_inst.py, \<open>_create_retrieve_wrapper\<close>:\<close>

definition llamaindex_retrieve_wrapper ::
  "exn + pyval \<Rightarrow> bound_original \<Rightarrow> pyval \<Rightarrow>
   receiver \<Rightarrow> pyval list \<Rightarrow> (string \<rightharpoonup> pyval) \<Rightarrow> (exn + pyval) \<times> event list" where
  "llamaindex_retrieve_wrapper get_telemetry original_method duration_ms
       self_instance args kwargs =
     (case instrumentor_get_telemetry get_telemetry of
        Inl e \<Rightarrow> (Inl e, [])
      | Inr telemetry \<Rightarrow>
          if telemetry = PyNone then (original_method self_instance args kwargs, [])
          else
            (let retriever_name = recv_class self_instance;
                 outcome = original_method self_instance args kwargs;
                 result = (case outcome of Inr r \<Rightarrow> r | Inl e \<Rightarrow> PyNone);
                 error_info = (case outcome of Inr r \<Rightarrow> None | Inl e \<Rightarrow> Some e)
             in case (if py_truthy result then py_len result else Inr 0) of
                  Inl len_error \<Rightarrow> (Inl len_error, [])
                | Inr docs_count \<Rightarrow>
                    (let span_kwargs =
                           [''span_type'' \<mapsto> PyStr ''RETRIEVER'',
                            ''name'' \<mapsto> PyStr (''llamaindex.'' @ retriever_name @ ''.retrieve''),
                            ''vector_store'' \<mapsto> PyStr ''llamaindex'',
                            ''documents_retrieved'' \<mapsto> PyInt docs_count,
                            ''duration_ms'' \<mapsto> duration_ms];
                         span_kwargs' =
                           (case error_info of
                              None \<Rightarrow> span_kwargs
                            | Some e \<Rightarrow>
                                span_kwargs(''status'' \<mapsto> PyStr ''ERROR'',
                                            ''is_error'' \<mapsto> PyInt 1,
                                            ''error_message'' \<mapsto> PyStr (exc_message e)))
                     in (outcome, [SendSpan span_kwargs']))))"


definition token_fields_consistent :: "bool \<Rightarrow> span \<Rightarrow> bool" where
  "token_fields_consistent failed sp =
     (case (sp ''input_tokens'', sp ''output_tokens'', sp ''total_tokens'') of
        (Some (PyInt i), Some (PyInt out), Some (PyInt tot)) \<Rightarrow>
          tot = i + out \<and> (failed \<longrightarrow> i = 0 \<and> out = 0)
      | _ \<Rightarrow> False)"

definition documents_in :: "exn + pyval \<Rightarrow> int" where
  "documents_in outcome =
     (case outcome of Inr (PyList xs) \<Rightarrow> int (length xs) | _ \<Rightarrow> 0)"

definition vector_store_of :: "receiver \<Rightarrow> string" where
  "vector_store_of self_instance =
     (case recv_attrs self_instance ''vectorstore'' of
        Some vs \<Rightarrow> type_name vs
      | None \<Rightarrow>
          (case recv_attrs self_instance ''vector_store'' of
             Some vs \<Rightarrow> type_name vs
           | None \<Rightarrow> ''unknown''))"

definition list_or_falsy :: "exn + pyval \<Rightarrow> bool" where
  "list_or_falsy outcome =
     (case outcome of Inl e \<Rightarrow> True | Inr v \<Rightarrow> isinstance_list v \<or> \<not> py_truthy v)"

text \<open>Calls for the examples.\<close>

definition ValueError :: "string \<Rightarrow> exn" where
  "ValueError msg =
     \<lparr>exc_class = ''ValueError'', exc_bases = [''Exception''], exc_message = msg\<rparr>"

definition RuntimeError :: "string \<Rightarrow> exn" where
  "RuntimeError msg =
     \<lparr>exc_class = ''RuntimeError'', exc_bases = [''Exception''], exc_message = msg\<rparr>"

definition configured :: "exn + pyval" where
  "configured = Inr (PyObj ''GenAITelemetry'')"

definition not_configured :: "exn + pyval" where
  "not_configured = Inl (RuntimeError ''Telemetry not initialized'')"

definition chat_returns :: original where
  "chat_returns args kwargs = Inr (PyObj ''ChatCompletion'')"

definition chat_raises :: original where
  "chat_raises args kwargs = Inl (ValueError ''boom'')"

definition invoke_raises :: bound_original where
  "invoke_raises self_instance args kwargs = Inl (ValueError ''boom'')"

definition retrieve_returns :: bound_original where
  "retrieve_returns self_instance args kwargs =
     Inr (PyList [PyObj ''Document'', PyObj ''Document''])"

definition usage_tokens :: "pyval \<Rightarrow> int \<times> int" where
  "usage_tokens response = (12, 30)"

definition chroma_retriever :: receiver where
  "chroma_retriever =
     \<lparr>recv_class = ''VectorStoreRetriever'', recv_attrs = [''vectorstore'' \<mapsto> PyObj ''Chroma'']\<rparr>"


definition llamaindex_retrieval :: "(exn + pyval) \<times> event list" where
  "llamaindex_retrieval =
     llamaindex_retrieve_wrapper configured retrieve_returns (PyInt 3) chroma_retriever []
       Map.empty"

definition chat_run :: "(exn + pyval) \<times> event list" where
  "chat_run = openai_chat_wrapper configured usage_tokens chat_returns (PyInt 3) [] Map.empty"

definition chat_error_run :: "(exn + pyval) \<times> event list" where
  "chat_error_run = openai_chat_wrapper configured usage_tokens chat_raises (PyInt 3) [] Map.empty"

section \<open>Properties of the interception utility\<close>

lemma patch_key_attrs_update [simp]:
  "patch_key (obj\<lparr>obj_attrs := a\<rparr>) method_name = patch_key obj method_name"
  by (simp add: patch_key_def split: option.splits)

text \<open>
  C2. Round trip: when the object has the attribute and the store has no entry for
  its key, \<open>wrap_method\<close> followed by \<open>unwrap_method\<close> returns true both times, leaves
  the attribute equal to the callable that was there before wrapping, and leaves the
  key out of the store; the object and the store are back to what they were.
\<close>

theorem wrap_unwrap_round_trip:
  assumes "obj_attrs obj method_name = Some original"
    and "original_store (patch_key obj method_name) = None"
  shows "\<exists>obj' store'.
           wrap_method obj method_name wrapper_func original_store = (True, obj', store') \<and>
           (\<exists>obj'' store''.
              unwrap_method obj' method_name store' = (True, obj'', store'') \<and>
              obj_attrs obj'' method_name = Some original \<and>
              store'' (patch_key obj method_name) = None \<and>
              obj'' = obj \<and> store'' = original_store)"
proof -
  have a: "(obj_attrs obj)(method_name \<mapsto> original) = obj_attrs obj"
    using assms(1) by (rule map_upd_triv)
  have s: "original_store(patch_key obj method_name := None) = original_store"
    using assms(2) by (metis fun_upd_triv)
  show ?thesis
    using assms a s by (simp add: wrap_method_def unwrap_method_def Let_def)
qed

theorem wrap_unwrap_round_trip_witness:
  "obj_attrs TestClass ''method'' = Some (LibFn ''method'') \<and>
   (Map.empty :: string \<rightharpoonup> callable) (patch_key TestClass ''method'') = None \<and>
   (\<exists>obj' store'.
      wrap_method TestClass ''method'' Wrapper Map.empty = (True, obj', store') \<and>
      (\<exists>obj'' store''.
         unwrap_method obj' ''method'' store' = (True, obj'', store'') \<and>
         obj_attrs obj'' ''method'' = Some (LibFn ''method'') \<and>
         store'' (patch_key TestClass ''method'') = None \<and>
         obj'' = TestClass \<and> store'' = Map.empty))"
proof -
  have h1: "obj_attrs TestClass ''method'' = Some (LibFn ''method'')"
    by (simp add: TestClass_def)
  have h2: "(Map.empty :: string \<rightharpoonup> callable) (patch_key TestClass ''method'') = None"
    by simp
  show ?thesis
    using h1 h2 wrap_unwrap_round_trip [OF h1 h2, of Wrapper] by blast
qed

text \<open>
  C1 as stated fails: \<open>wrap_method\<close> assigns \<open>original_store[key]\<close> without looking for
  an entry. After the first apply the store holds the library function; after the
  second it holds the wrapper the first apply installed.
\<close>

theorem wrap_method_twice_counterexample:
  "snd (snd wrapped_once) (patch_key TestClass ''method'') = Some (LibFn ''method'') \<and>
   fst wrapped_twice \<and>
   snd (snd wrapped_twice) (patch_key TestClass ''method'') = Some (Wrapper (LibFn ''method'')) \<and>
   snd (snd wrapped_twice) (patch_key TestClass ''method'') \<noteq> Some (LibFn ''method'')"
  by (simp add: wrapped_twice_def wrapped_once_def wrap_method_def TestClass_def Let_def
      patch_key_def)

text \<open>
  C1, amended: \<open>wrap_method\<close> stores under the key the callable it finds on the object
  when it is called. The first apply stores the original; a second apply without a
  revert succeeds too, replaces the entry by the wrapper the first apply installed,
  and installs a wrapper around that wrapper.
\<close>

theorem wrap_method_twice_stores_installed:
  assumes "obj_attrs obj method_name = Some original"
  shows "\<exists>obj1 store1 obj2 store2.
           wrap_method obj method_name f original_store = (True, obj1, store1) \<and>
           store1 (patch_key obj method_name) = Some original \<and>
           obj_attrs obj1 method_name = Some (f original) \<and>
           wrap_method obj1 method_name g store1 = (True, obj2, store2) \<and>
           store2 (patch_key obj method_name) = Some (f original) \<and>
           obj_attrs obj2 method_name = Some (g (f original))"
  using assms by (simp add: wrap_method_def Let_def)

theorem wrap_method_twice_stores_installed_witness:
  "obj_attrs TestClass ''method'' = Some (LibFn ''method'') \<and>
   (\<exists>obj1 store1 obj2 store2.
      wrap_method TestClass ''method'' Wrapper Map.empty = (True, obj1, store1) \<and>
      store1 (patch_key TestClass ''method'') = Some (LibFn ''method'') \<and>
      obj_attrs obj1 ''method'' = Some (Wrapper (LibFn ''method'')) \<and>
      wrap_method obj1 ''method'' Wrapper store1 = (True, obj2, store2) \<and>
      store2 (patch_key TestClass ''method'') = Some (Wrapper (LibFn ''method'')) \<and>
      obj_attrs obj2 ''method'' = Some (Wrapper (Wrapper (LibFn ''method''))))"
proof -
  have h: "obj_attrs TestClass ''method'' = Some (LibFn ''method'')"
    by (simp add: TestClass_def)
  show ?thesis
    using h wrap_method_twice_stores_installed [OF h, of Wrapper Map.empty Wrapper] by blast
qed

section \<open>Properties of the capability probe and the lifecycle\<close>

text \<open>
  C5. \<open>instrument()\<close> returns true at once on an instance that is already
  instrumented; returns false and leaves the instance as it is when the probe
  reports the library absent; returns false with the flag still false when
  \<open>_instrument\<close> raises; and sets the flag and returns true when \<open>_instrument\<close>
  completes, which is the only way the flag becomes true.
\<close>

theorem instrument_lifecycle:
  "(is_instrumented self \<longrightarrow> instrument self = Inr (True, self)) \<and>
   (\<not> is_instrumented self \<and> check_installed_impl self = Inr False \<longrightarrow>
      instrument self = Inr (False, self)) \<and>
   (\<not> is_instrumented self \<and> check_installed_impl self = Inr True \<and>
    instrument_impl self = Some e \<longrightarrow>
      instrument self = Inr (False, self)) \<and>
   (\<not> is_instrumented self \<and> check_installed_impl self = Inr True \<and>
    instrument_impl self = None \<longrightarrow>
      instrument self = Inr (True, self\<lparr>is_instrumented := True\<rparr>)) \<and>
   (\<forall>ok self'. instrument self = Inr (ok, self') \<and> \<not> is_instrumented self \<and>
      is_instrumented self' \<longrightarrow>
      ok \<and> check_installed_impl self = Inr True \<and> instrument_impl self = None)"
  by (auto simp: instrument_def split: sum.splits option.splits if_splits)

lemma check_installed_only_openai: "check_installed only_openai OpenAI = Inr True"
  by (simp add: is_not_None_def safe_import_def only_openai_def)

lemma check_installed_nothing_openai: "check_installed nothing_installed OpenAI = Inr False"
  by (simp add: is_not_None_def safe_import_def nothing_installed_def
      ModuleNotFoundError_def isinstance_exc_def)

theorem instrument_lifecycle_witness:
  "is_instrumented installed_openai \<and>
   instrument installed_openai = Inr (True, installed_openai) \<and>
   \<not> is_instrumented absent_openai \<and> check_installed_impl absent_openai = Inr False \<and>
   instrument absent_openai = Inr (False, absent_openai) \<and>
   \<not> is_instrumented failing_openai \<and> check_installed_impl failing_openai = Inr True \<and>
   instrument_impl failing_openai = Some (AttributeError ''no attribute resources'') \<and>
   instrument failing_openai = Inr (False, failing_openai) \<and>
   \<not> is_instrumented fresh_openai \<and> check_installed_impl fresh_openai = Inr True \<and>
   instrument_impl fresh_openai = None \<and>
   instrument fresh_openai = Inr (True, installed_openai)"
proof -
  have a: "is_instrumented installed_openai"
    by (simp add: installed_openai_def)
  have b: "\<not> is_instrumented absent_openai \<and> check_installed_impl absent_openai = Inr False"
    by (simp add: absent_openai_def new_instrumentor_def check_installed_nothing_openai
        del: check_installed.simps)
  have c: "\<not> is_instrumented failing_openai \<and> check_installed_impl failing_openai = Inr True \<and>
           instrument_impl failing_openai = Some (AttributeError ''no attribute resources'')"
    by (simp add: failing_openai_def new_instrumentor_def check_installed_only_openai
        del: check_installed.simps)
  have d: "\<not> is_instrumented fresh_openai \<and> check_installed_impl fresh_openai = Inr True \<and>
           instrument_impl fresh_openai = None"
    by (simp add: fresh_openai_def new_instrumentor_def check_installed_only_openai
        del: check_installed.simps)
  have e: "fresh_openai\<lparr>is_instrumented := True\<rparr> = installed_openai"
    by (simp add: installed_openai_def)
  show ?thesis
    using a b c d e
      instrument_lifecycle [of installed_openai]
      instrument_lifecycle [of absent_openai]
      instrument_lifecycle [of failing_openai "AttributeError ''no attribute resources''"]
      instrument_lifecycle [of fresh_openai]
    by metis
qed




section \<open>Properties of the lifecycle controller\<close>

lemma instrument_each_dom:
  "instrument_each target reg results active = Inr (results', active') \<Longrightarrow>
   dom results' = dom results \<union> (target \<inter> fst ` set reg)"
proof (induction reg arbitrary: results active)
  case Nil
  then show ?case by simp
next
  case (Cons entry rest)
  obtain name instrumentor_class where entry: "entry = (name, instrumentor_class)"
    by (cases entry)
  have upd: "dom (results(name \<mapsto> b)) = insert name (dom results)" for b
    by simp
  show ?case
  proof (cases "name \<in> target")
    case False
    then have "instrument_each target rest results active = Inr (results', active')"
      using Cons.prems entry by simp
    then have e1: "dom results' = dom results \<union> (target \<inter> fst ` set rest)"
      by (rule Cons.IH)
    have e3: "target \<inter> fst ` set (entry # rest) = target \<inter> fst ` set rest"
      using False entry by auto
    show ?thesis unfolding e1 e3 ..
  next
    case inT: True
    then have e3: "target \<inter> fst ` set (entry # rest) =
                     insert name (target \<inter> fst ` set rest)"
      using entry by auto
    show ?thesis
    proof (cases "already_instrumented instrumentor_class active")
      case True
      then have "instrument_each target rest (results(name \<mapsto> True)) active =
                   Inr (results', active')"
        using Cons.prems inT entry by simp
      then have e1: "dom results' =
                       dom (results(name \<mapsto> True)) \<union> (target \<inter> fst ` set rest)"
        by (rule Cons.IH)
      show ?thesis unfolding e1 e3 upd by blast
    next
      case False
      from Cons.prems inT False entry obtain success instrumentor where
        r: "instrument (new_instance instrumentor_class) = Inr (success, instrumentor)"
        by (auto split: sum.splits)
      then have "instrument_each target rest (results(name \<mapsto> success))
                   (if success then active @ [instrumentor] else active) =
                 Inr (results', active')"
        using Cons.prems inT False entry by simp
      then have e1: "dom results' =
                       dom (results(name \<mapsto> success)) \<union> (target \<inter> fst ` set rest)"
        by (rule Cons.IH)
      show ?thesis unfolding e1 e3 upd by blast
    qed
  qed
qed

lemma uninstrument_fail_same: "uninstrument i = (False, i') \<Longrightarrow> i' = i"
  by (auto simp: uninstrument_def split: if_splits option.splits)

lemma uninstrument_each_remaining:
  "snd (uninstrument_each frameworks active results remaining) =
     remaining @ filter (\<lambda>i. \<not> selected frameworks i \<or> \<not> fst (uninstrument i)) active"
proof (induction active arbitrary: results remaining)
  case Nil
  then show ?case by simp
next
  case (Cons i rest)
  obtain success i' where u: "uninstrument i = (success, i')"
    by (cases "uninstrument i")
  then have "\<not> success \<Longrightarrow> i' = i"
    by (auto dest: uninstrument_fail_same)
  with u Cons show ?case
    by (simp add: Let_def)
qed

lemma uninstrument_each_dom:
  "dom (fst (uninstrument_each frameworks active results remaining)) =
     dom results \<union> (\<lambda>i. lower (inst_name i)) ` {i \<in> set active. selected frameworks i}"
proof (induction active arbitrary: results remaining)
  case Nil
  then show ?case by simp
next
  case (Cons i rest)
  obtain success i' where u: "uninstrument i = (success, i')"
    by (cases "uninstrument i")
  have upd: "dom (results(k \<mapsto> b)) = insert k (dom results)" for k b
    by simp
  show ?case
  proof (cases "selected frameworks i")
    case False
    have e1: "uninstrument_each frameworks (i # rest) results remaining =
            uninstrument_each frameworks rest results (remaining @ [i])"
      using False by (simp add: Let_def)
    have e3: "{j \<in> set (i # rest). selected frameworks j} =
              {j \<in> set rest. selected frameworks j}"
      using False by auto
    show ?thesis unfolding e1 e3 by (rule Cons.IH)
  next
    case True
    have e1: "uninstrument_each frameworks (i # rest) results remaining =
            uninstrument_each frameworks rest (results(lower (inst_name i) \<mapsto> success))
              (if \<not> success then remaining @ [i'] else remaining)"
      using True u by (simp add: Let_def)
    have e3: "{j \<in> set (i # rest). selected frameworks j} =
              insert i {j \<in> set rest. selected frameworks j}"
      using True by auto
    show ?thesis unfolding e1 e3 Cons.IH upd by blast
  qed
qed

lemma uninstrument_each_keep:
  "k \<notin> (\<lambda>i. lower (inst_name i)) ` set active \<Longrightarrow>
   fst (uninstrument_each frameworks active results remaining) k = results k"
proof (induction active arbitrary: results remaining)
  case Nil
  then show ?case by simp
next
  case (Cons i rest)
  obtain success i' where u: "uninstrument i = (success, i')"
    by (cases "uninstrument i")
  from Cons.prems have k: "k \<noteq> lower (inst_name i)"
    and k': "k \<notin> (\<lambda>i. lower (inst_name i)) ` set rest" by auto
  show ?case
    using u k Cons.IH [OF k'] by (simp add: Let_def)
qed

lemma uninstrument_each_value:
  "distinct (map (\<lambda>i. lower (inst_name i)) active) \<Longrightarrow> i \<in> set active \<Longrightarrow>
   selected frameworks i \<Longrightarrow>
   fst (uninstrument_each frameworks active results remaining) (lower (inst_name i)) =
     Some (fst (uninstrument i))"
proof (induction active arbitrary: results remaining)
  case Nil
  then show ?case by simp
next
  case (Cons j rest)
  obtain success j' where u: "uninstrument j = (success, j')"
    by (cases "uninstrument j")
  from Cons.prems(1) have d: "distinct (map (\<lambda>i. lower (inst_name i)) rest)"
    and nj: "lower (inst_name j) \<notin> (\<lambda>i. lower (inst_name i)) ` set rest" by auto
  show ?case
  proof (cases "i = j")
    case True
    with u Cons.prems(3) nj show ?thesis
      by (simp add: Let_def uninstrument_each_keep)
  next
    case False
    with Cons.prems(2) have "i \<in> set rest" by simp
    from Cons.IH [OF d this Cons.prems(3)] u show ?thesis
      by (simp add: Let_def)
  qed
qed

lemma registered_all:
  "register_instrumentors (repository_classes imp) [] =
     Inr [(''openai'', new_instrumentor imp OpenAI None None),
          (''anthropic'', new_instrumentor imp Anthropic None None),
          (''langchain'', new_instrumentor imp LangChain None None),
          (''llamaindex'', new_instrumentor imp LlamaIndex None None),
          (''google'', new_instrumentor imp Google None None)]"
  by (simp add: register_instrumentors_def register_one_def repository_classes_def)

text \<open>
  C6 as stated fails: the loop runs over the registry and skips the names outside
  the target set, so a requested name that is not registered gets no entry. With
  \<open>frameworks=["crewai"]\<close> the call returns, \<open>crewai\<close> is in the target set, and the result
  has no key \<open>crewai\<close>.
\<close>

theorem auto_instrument_keys_counterexample:
  "returned crewai_run \<and>
   ''crewai'' \<in> frameworks_to_instrument [] (Some [''crewai'']) None \<and>
   result_for crewai_run ''crewai'' = None"
  by (simp add: crewai_run_def auto_instrument_def registered_all initial_state_def
      frameworks_to_instrument_def lower_def lower_char_def returned_def result_for_def)

text \<open>
  C6, amended: when \<open>auto_instrument\<close> returns, the keys of the result are the
  registered names that lie in the target set, the target set being the lowercased
  \<open>frameworks\<close> (or all registered names when \<open>frameworks\<close> is \<open>None\<close>) minus the lowercased
  \<open>exclude\<close>. Names outside the target set, excluded ones among them, do not appear.
\<close>

theorem auto_instrument_result_keys:
  assumes "auto_instrument import_class st frameworks exclude = Inr (results, st')"
  shows "dom results =
           frameworks_to_instrument (INSTRUMENTORS st') frameworks exclude \<inter>
           fst ` set (INSTRUMENTORS st')"
proof -
  from assms obtain reg active where
    reg: "register_instrumentors import_class (INSTRUMENTORS st) = Inr reg" and
    loop: "instrument_each (frameworks_to_instrument reg frameworks exclude) reg
             Map.empty (active_instrumentors st) = Inr (results, active)" and
    st': "st' = \<lparr>INSTRUMENTORS = reg, active_instrumentors = active\<rparr>"
    by (auto simp: auto_instrument_def split: sum.splits prod.splits)
  from instrument_each_dom [OF loop] st' show ?thesis by simp
qed

lemma exclude_run_returns:
  "\<exists>results st'. exclude_run = Inr (results, st')"
  by (simp add: exclude_run_def auto_instrument_def registered_all initial_state_def
      frameworks_to_instrument_def lower_def lower_char_def already_instrumented_def
      instrument_def new_instance_def new_instrumentor_def is_not_None_def is_not_None_or_def safe_import_def
      only_openai_def ModuleNotFoundError_def isinstance_exc_def)

lemma auto_instrument_registry:
  assumes "auto_instrument import_class st frameworks exclude = Inr (results, st')"
  shows "register_instrumentors import_class (INSTRUMENTORS st) = Inr (INSTRUMENTORS st')"
  using assms by (auto simp: auto_instrument_def split: sum.splits prod.splits)

theorem auto_instrument_result_keys_witness:
  "\<exists>results st'. exclude_run = Inr (results, st') \<and>
     dom results = {''openai'', ''langchain'', ''llamaindex''}"
proof -
  obtain results st' where r: "exclude_run = Inr (results, st')"
    using exclude_run_returns by blast
  then have r': "auto_instrument (repository_classes only_openai) initial_state None
                   (Some [''Anthropic'', ''google'']) = Inr (results, st')"
    by (simp add: exclude_run_def)
  have reg: "INSTRUMENTORS st' =
     [(''openai'', new_instrumentor only_openai OpenAI None None),
      (''anthropic'', new_instrumentor only_openai Anthropic None None),
      (''langchain'', new_instrumentor only_openai LangChain None None),
      (''llamaindex'', new_instrumentor only_openai LlamaIndex None None),
      (''google'', new_instrumentor only_openai Google None None)]"
    using auto_instrument_registry [OF r'] by (simp add: initial_state_def registered_all)
  have "dom results = {''openai'', ''langchain'', ''llamaindex''}"
    using auto_instrument_result_keys [OF r']
    by (simp add: reg frameworks_to_instrument_def lower_def lower_char_def)
  with r show ?thesis by blast
qed

text \<open>
  C8. \<open>uninstrument(frameworks)\<close> calls \<open>uninstrument()\<close> on each active instrumentor
  whose lowercased name is among the lowercased \<open>frameworks\<close> (on every active one when
  \<open>frameworks\<close> is \<open>None\<close>) and maps that name to the flag returned; the new active list
  is the old one restricted to the instrumentors outside the selection and those
  whose \<open>uninstrument()\<close> returned false, in their old order.
\<close>

theorem uninstrument_all_semantics:
  "\<exists>results.
     uninstrument_all st frameworks =
       (results,
        st\<lparr>active_instrumentors :=
             filter (\<lambda>i. \<not> selected frameworks i \<or> \<not> fst (uninstrument i))
               (active_instrumentors st)\<rparr>) \<and>
     dom results =
       (\<lambda>i. lower (inst_name i)) ` {i \<in> set (active_instrumentors st). selected frameworks i} \<and>
     (distinct (map (\<lambda>i. lower (inst_name i)) (active_instrumentors st)) \<longrightarrow>
      (\<forall>i\<in>set (active_instrumentors st). selected frameworks i \<longrightarrow>
         results (lower (inst_name i)) = Some (fst (uninstrument i))))"
proof -
  obtain results remaining where
    r: "uninstrument_each frameworks (active_instrumentors st) Map.empty [] = (results, remaining)"
    by (cases "uninstrument_each frameworks (active_instrumentors st) Map.empty []")
  have 1: "remaining = filter (\<lambda>i. \<not> selected frameworks i \<or> \<not> fst (uninstrument i))
                         (active_instrumentors st)"
    using uninstrument_each_remaining [of frameworks "active_instrumentors st" Map.empty "[]"] r
    by simp
  have 2: "dom results = (\<lambda>i. lower (inst_name i)) `
             {i \<in> set (active_instrumentors st). selected frameworks i}"
    using uninstrument_each_dom [of frameworks "active_instrumentors st" Map.empty "[]"] r
    by simp
  have 3: "results (lower (inst_name i)) = Some (fst (uninstrument i))"
    if "distinct (map (\<lambda>i. lower (inst_name i)) (active_instrumentors st))"
      and "i \<in> set (active_instrumentors st)" and "selected frameworks i" for i
    using uninstrument_each_value [OF that, of Map.empty "[]"] r by simp
  have "uninstrument_all st frameworks = (results, st\<lparr>active_instrumentors := remaining\<rparr>)"
    using r by (simp add: uninstrument_all_def)
  with 1 2 3 show ?thesis by blast
qed

lemma names_active:
  "lower (inst_name installed_openai) = ''openai'' \<and>
   lower (inst_name stuck_anthropic) = ''anthropic'' \<and>
   lower (inst_name installed_google) = ''google''"
  by (simp add: installed_openai_def fresh_openai_def stuck_anthropic_def installed_google_def
      new_instrumentor_def lower_def lower_char_def)

lemma uninstrument_active:
  "fst (uninstrument installed_openai) \<and> \<not> fst (uninstrument stuck_anthropic)"
  by (simp add: uninstrument_def installed_openai_def fresh_openai_def stuck_anthropic_def
      new_instrumentor_def)

lemma selected_active:
  "selected (Some [''OpenAI'', ''anthropic'']) installed_openai \<and>
   selected (Some [''OpenAI'', ''anthropic'']) stuck_anthropic \<and>
   \<not> selected (Some [''OpenAI'', ''anthropic'']) installed_google"
  using names_active by (simp add: selected_def) (simp add: lower_def lower_char_def)

theorem uninstrument_all_semantics_witness:
  "\<exists>results.
     uninstrument_all active_state (Some [''OpenAI'', ''anthropic'']) =
       (results, active_state\<lparr>active_instrumentors := [stuck_anthropic, installed_google]\<rparr>) \<and>
     dom results = {''openai'', ''anthropic''} \<and>
     results ''openai'' = Some True \<and> results ''anthropic'' = Some False"
proof -
  have d: "distinct (map (\<lambda>i. lower (inst_name i)) (active_instrumentors active_state))"
    using names_active by (simp add: active_state_def)
  have act: "active_instrumentors active_state =
               [installed_openai, stuck_anthropic, installed_google]"
    by (simp add: active_state_def)
  from uninstrument_all_semantics [of active_state "Some [''OpenAI'', ''anthropic'']"]
  obtain results where
    1: "uninstrument_all active_state (Some [''OpenAI'', ''anthropic'']) =
         (results,
          active_state\<lparr>active_instrumentors :=
            filter (\<lambda>i. \<not> selected (Some [''OpenAI'', ''anthropic'']) i \<or>
                         \<not> fst (uninstrument i))
              (active_instrumentors active_state)\<rparr>)" and
    2: "dom results = (\<lambda>i. lower (inst_name i)) `
          {i \<in> set (active_instrumentors active_state).
             selected (Some [''OpenAI'', ''anthropic'']) i}" and
    3: "distinct (map (\<lambda>i. lower (inst_name i)) (active_instrumentors active_state)) \<longrightarrow>
        (\<forall>i\<in>set (active_instrumentors active_state).
           selected (Some [''OpenAI'', ''anthropic'']) i \<longrightarrow>
           results (lower (inst_name i)) = Some (fst (uninstrument i)))"
    by blast
  have f: "filter (\<lambda>i. \<not> selected (Some [''OpenAI'', ''anthropic'']) i \<or>
                         \<not> fst (uninstrument i))
              (active_instrumentors active_state) = [stuck_anthropic, installed_google]"
    using selected_active uninstrument_active by (simp add: act)
  have s: "{i \<in> set (active_instrumentors active_state).
             selected (Some [''OpenAI'', ''anthropic'']) i} = {installed_openai, stuck_anthropic}"
    using selected_active by (auto simp: act)
  have v1: "results ''openai'' = Some True"
    using 3 d selected_active uninstrument_active names_active by (auto simp: act)
  have v2: "results ''anthropic'' = Some False"
    using 3 d selected_active uninstrument_active names_active by (auto simp: act)
  have "dom results = {''openai'', ''anthropic''}"
    using 2 names_active by (simp add: s)
  with 1 f v1 v2 show ?thesis by simp
qed

section \<open>Properties of the call wrappers\<close>

lemmas wrapper_defs =
  openai_chat_wrapper_def anthropic_messages_wrapper_def langchain_llm_invoke_wrapper_def
  langchain_chain_invoke_wrapper_def langchain_retriever_invoke_wrapper_def
  llamaindex_retrieve_wrapper_def

text \<open>
  C4. Pass-through: when \<open>_get_telemetry\<close> yields \<open>None\<close>, each wrapper returns or raises
  exactly what the original does on the same arguments, and calls nothing on a sink.
\<close>

theorem wrapper_pass_through:
  assumes "instrumentor_get_telemetry get_telemetry = Inr PyNone"
  shows "openai_chat_wrapper get_telemetry extract_tokens original_method duration_ms args kwargs =
           (original_method args kwargs, []) \<and>
         anthropic_messages_wrapper get_telemetry extract_tokens original_method duration_ms args kwargs =
           (original_method args kwargs, []) \<and>
         langchain_llm_invoke_wrapper get_telemetry extract_tokens py_str bound_method duration_ms
             self_instance args kwargs =
           (bound_method self_instance args kwargs, []) \<and>
         langchain_chain_invoke_wrapper get_telemetry py_str bound_method duration_ms
             self_instance args kwargs =
           (bound_method self_instance args kwargs, []) \<and>
         langchain_retriever_invoke_wrapper get_telemetry bound_method duration_ms
             self_instance args kwargs =
           (bound_method self_instance args kwargs, []) \<and>
         llamaindex_retrieve_wrapper get_telemetry bound_method duration_ms
             self_instance args kwargs =
           (bound_method self_instance args kwargs, [])"
  using assms by (simp add: wrapper_defs)

lemma not_configured_None: "instrumentor_get_telemetry not_configured = Inr PyNone"
  by (simp add: instrumentor_get_telemetry_def not_configured_def RuntimeError_def
      isinstance_exc_def)

theorem wrapper_pass_through_witness:
  "openai_chat_wrapper not_configured usage_tokens chat_returns (PyInt 3) [] Map.empty =
     (Inr (PyObj ''ChatCompletion''), []) \<and>
   langchain_retriever_invoke_wrapper not_configured invoke_raises (PyInt 3) chroma_retriever []
       Map.empty =
     (Inl (ValueError ''boom''), [])"
  using wrapper_pass_through [OF not_configured_None,
      where original_method = chat_returns and bound_method = invoke_raises and
        extract_tokens = usage_tokens and duration_ms = "PyInt 3" and args = "[]" and
        kwargs = Map.empty and self_instance = chroma_retriever]
  by (simp add: chat_returns_def invoke_raises_def)




text \<open>
  C9 as stated fails for the LlamaIndex wrapper: its span names the vector store
  \<open>llamaindex\<close> whatever the receiver's \<open>vectorstore\<close> attribute is.
\<close>

theorem retriever_vector_store_counterexample:
  "recv_attrs chroma_retriever ''vectorstore'' = Some (PyObj ''Chroma'') \<and>
   fst llamaindex_retrieval = Inr (PyList [PyObj ''Document'', PyObj ''Document'']) \<and>
   span_fields ''documents_retrieved'' (snd llamaindex_retrieval) = [Some (PyInt 2)] \<and>
   span_fields ''vector_store'' (snd llamaindex_retrieval) = [Some (PyStr ''llamaindex'')]"
  by (simp add: llamaindex_retrieval_def llamaindex_retrieve_wrapper_def configured_def
      instrumentor_get_telemetry_def retrieve_returns_def Let_def span_fields_def
      chroma_retriever_def)

text \<open>
  C9, amended: with a sink configured, the LangChain retriever wrapper sends one
  \<open>RETRIEVER\<close> span whose \<open>documents_retrieved\<close> is the length of the result when it is a
  list and 0 otherwise (also when the call failed), and whose \<open>vector_store\<close> is the
  type name of the receiver's \<open>vectorstore\<close> attribute, else of its \<open>vector_store\<close>
  attribute, else \<open>unknown\<close>. The LlamaIndex retrieve wrapper sends one \<open>RETRIEVER\<close> span
  with the same count when the result is a list or falsy or the call failed, and
  with \<open>vector_store\<close> always \<open>llamaindex\<close>.
\<close>

theorem retriever_span_fields:
  assumes "get_telemetry = Inr telemetry" and "telemetry \<noteq> PyNone"
  shows "(let r = langchain_retriever_invoke_wrapper get_telemetry bound_method duration_ms
                    self_instance args kwargs
          in fst r = bound_method self_instance args kwargs \<and>
             span_fields ''span_type'' (snd r) = [Some (PyStr ''RETRIEVER'')] \<and>
             span_fields ''documents_retrieved'' (snd r) =
               [Some (PyInt (documents_in (bound_method self_instance args kwargs)))] \<and>
             span_fields ''vector_store'' (snd r) =
               [Some (PyStr (vector_store_of self_instance))]) \<and>
         (list_or_falsy (bound_method self_instance args kwargs) \<longrightarrow>
          (let r = llamaindex_retrieve_wrapper get_telemetry bound_method duration_ms
                     self_instance args kwargs
           in fst r = bound_method self_instance args kwargs \<and>
              span_fields ''span_type'' (snd r) = [Some (PyStr ''RETRIEVER'')] \<and>
              span_fields ''documents_retrieved'' (snd r) =
                [Some (PyInt (documents_in (bound_method self_instance args kwargs)))] \<and>
              span_fields ''vector_store'' (snd r) = [Some (PyStr ''llamaindex'')]))"
proof (cases "bound_method self_instance args kwargs")
  case (Inl e)
  with assms show ?thesis
    by (simp add: wrapper_defs instrumentor_get_telemetry_def Let_def span_fields_def
        documents_in_def vector_store_of_def list_or_falsy_def)
next
  case (Inr v)
  with assms show ?thesis
    by (cases v)
       (simp_all add: wrapper_defs instrumentor_get_telemetry_def Let_def span_fields_def
          documents_in_def vector_store_of_def list_or_falsy_def)
qed

theorem retriever_span_fields_witness:
  "span_fields ''documents_retrieved''
     (snd (langchain_retriever_invoke_wrapper configured retrieve_returns (PyInt 3)
             chroma_retriever [] Map.empty)) = [Some (PyInt 2)] \<and>
   span_fields ''vector_store''
     (snd (langchain_retriever_invoke_wrapper configured retrieve_returns (PyInt 3)
             chroma_retriever [] Map.empty)) = [Some (PyStr ''Chroma'')] \<and>
   span_fields ''documents_retrieved''
     (snd (llamaindex_retrieve_wrapper configured retrieve_returns (PyInt 3)
             chroma_retriever [] Map.empty)) = [Some (PyInt 2)] \<and>
   span_fields ''vector_store''
     (snd (llamaindex_retrieve_wrapper configured retrieve_returns (PyInt 3)
             chroma_retriever [] Map.empty)) = [Some (PyStr ''llamaindex'')]"
proof -
  have h1: "configured = Inr (PyObj ''GenAITelemetry'')"
    by (simp add: configured_def)
  have h2: "PyObj ''GenAITelemetry'' \<noteq> PyNone"
    by simp
  have d: "documents_in (retrieve_returns chroma_retriever [] Map.empty) = 2"
    by (simp add: documents_in_def retrieve_returns_def)
  have v: "vector_store_of chroma_retriever = ''Chroma''"
    by (simp add: vector_store_of_def chroma_retriever_def)
  have l: "list_or_falsy (retrieve_returns chroma_retriever [] Map.empty)"
    by (simp add: list_or_falsy_def retrieve_returns_def)
  show ?thesis
    using retriever_span_fields [where get_telemetry = configured and
        bound_method = retrieve_returns and duration_ms = "PyInt 3" and
        self_instance = chroma_retriever and args = "[]" and kwargs = Map.empty, OF h1 h2]
      d v l
    by (simp add: Let_def)
qed

text \<open>
  C10. Every span sent by the chat, messages and LLM \<open>invoke\<close> wrappers has
  \<open>total_tokens = input_tokens + output_tokens\<close>, and both counts are 0 when the original
  call raised.
\<close>

theorem llm_span_token_counts:
  "(\<forall>sp\<in>set (sent_spans (snd (openai_chat_wrapper get_telemetry extract_tokens original_method
        duration_ms args kwargs))).
      token_fields_consistent (\<not> returned (original_method args kwargs)) sp) \<and>
   (\<forall>sp\<in>set (sent_spans (snd (anthropic_messages_wrapper get_telemetry extract_tokens original_method
        duration_ms args kwargs))).
      token_fields_consistent (\<not> returned (original_method args kwargs)) sp) \<and>
   (\<forall>sp\<in>set (sent_spans (snd (langchain_llm_invoke_wrapper get_telemetry extract_tokens py_str
        bound_method duration_ms self_instance args kwargs))).
      token_fields_consistent (\<not> returned (bound_method self_instance args kwargs)) sp)"
  by (auto simp: wrapper_defs Let_def token_fields_consistent_def returned_def
      split: sum.splits)

theorem llm_span_token_counts_witness:
  "sent_spans (snd chat_run) \<noteq> [] \<and>
   list_all (token_fields_consistent False) (sent_spans (snd chat_run)) \<and>
   sent_spans (snd chat_error_run) \<noteq> [] \<and>
   list_all (token_fields_consistent True) (sent_spans (snd chat_error_run))"
proof -
  have n1: "sent_spans (snd chat_run) \<noteq> []"
    by (simp add: chat_run_def openai_chat_wrapper_def configured_def
        instrumentor_get_telemetry_def Let_def)
  have n2: "sent_spans (snd chat_error_run) \<noteq> []"
    by (simp add: chat_error_run_def openai_chat_wrapper_def configured_def
        instrumentor_get_telemetry_def Let_def)
  have r1: "(\<not> returned (chat_returns [] Map.empty)) = False"
    by (simp add: returned_def chat_returns_def)
  have r2: "(\<not> returned (chat_raises [] Map.empty)) = True"
    by (simp add: returned_def chat_raises_def)
  have a1: "list_all (token_fields_consistent False) (sent_spans (snd chat_run))"
    using llm_span_token_counts [where get_telemetry = configured and extract_tokens = usage_tokens and
        original_method = chat_returns and duration_ms = "PyInt 3" and args = "[]" and
        kwargs = Map.empty]
    unfolding r1 chat_run_def list_all_iff by blast
  have a2: "list_all (token_fields_consistent True) (sent_spans (snd chat_error_run))"
    using llm_span_token_counts [where get_telemetry = configured and extract_tokens = usage_tokens and
        original_method = chat_raises and duration_ms = "PyInt 3" and args = "[]" and
        kwargs = Map.empty]
    unfolding r2 chat_error_run_def list_all_iff by blast
  from n1 n2 a1 a2 show ?thesis by blast
qed

end
